theory Spec2Isabelle
  imports Complex_Main
begin

section \<open>Session authentication of the LinkedIn client (linkedin_api/client.py)\<close>

text \<open>
  The theory embeds class \<open>Client\<close> of \<open>linkedin_api/client.py\<close>: the cookie cache on
  disk, the validity check of a cached session token, and the two-step authentication
  against the service. Python exceptions are values of type \<open>error\<close>; every method that
  mutates the client returns the updated client next to its result, also when it raises,
  since an assignment made before a raise stays made. Calls of the logger change nothing
  the client reads and are left out; the request headers and the proxies are constants of
  every request and are part of the environment's answers.
\<close>

subsection \<open>Cookies and cookie jars\<close>

text \<open>
  A cookie as \<open>http.cookiejar.Cookie\<close> has it. The value is \<open>None\<close> for a cookie sent
  without \<open>=\<close>; the expiry is \<open>None\<close> for a session cookie and otherwise an integer
  number of seconds since the epoch.
\<close>

record cookie =
  cookie_name :: string
  cookie_value :: "string option"
  cookie_expires :: "int option"
  cookie_domain :: string
  cookie_path :: string

text \<open>
  A jar is the sequence of its cookies in iteration order. \<open>CookieJar.set_cookie\<close>
  stores a cookie under its domain, path and name, so the cookies of a jar differ in
  that key.
\<close>

type_synonym cookiejar = "cookie list"

definition cookie_key :: "cookie \<Rightarrow> string \<times> string \<times> string" where
  "cookie_key c = (cookie_domain c, cookie_path c, cookie_name c)"

text \<open>Python truthiness of an optional string: \<open>None\<close> and \<open>""\<close> are falsy.\<close>

definition truthy_str :: "string option \<Rightarrow> bool" where
  "truthy_str v = (case v of None \<Rightarrow> False | Some s \<Rightarrow> s \<noteq> [])"

subsection \<open>Decoded JSON and exceptions\<close>

text \<open>
  What \<open>res.json()\<close> can return. A float is its real value; the decoder's \<open>NaN\<close> and
  the two infinities are values of their own. A dictionary is the list of its items
  (keys distinct, as in a Python dict).
\<close>

datatype json =
    JNull
  | JBool bool
  | JInt int
  | JFloat real
  | JNaN
  | JInfinity bool
  | JStr string
  | JList "json list"
  | JDict "(string \<times> json) list"

datatype error =
    ChallengeException json
  | UnauthorizedException
  | PyException
  | KeyError string
  | TypeError
  | CookieConflictError string
  | JSONDecodeError
  | RequestException string

fun truthy_json :: "json \<Rightarrow> bool" where
  "truthy_json JNull = False"
| "truthy_json (JBool b) = b"
| "truthy_json (JInt i) = (i \<noteq> 0)"
| "truthy_json (JFloat r) = (r \<noteq> 0)"
| "truthy_json JNaN = True"
| "truthy_json (JInfinity s) = True"
| "truthy_json (JStr s) = (s \<noteq> [])"
| "truthy_json (JList xs) = (xs \<noteq> [])"
| "truthy_json (JDict kvs) = (kvs \<noteq> [])"

text \<open>
  \<open>data[key]\<close> with a string key: a dictionary answers or raises \<open>KeyError\<close>, every
  other truthy value raises \<open>TypeError\<close>.
\<close>

fun json_getitem :: "json \<Rightarrow> string \<Rightarrow> error + json" where
  "json_getitem (JDict kvs) k =
     (case map_of kvs k of None \<Rightarrow> Inl (KeyError k) | Some v \<Rightarrow> Inr v)"
| "json_getitem other k = Inl TypeError"

subsection \<open>The library operations the client calls\<close>

text \<open>
  \<open>RequestsCookieJar.__getitem__\<close> is \<open>_find_no_duplicates(name)\<close> of the requests
  library: it walks the whole jar, raises \<open>CookieConflictError\<close> at a second cookie of
  that name once a value has been seen, and at the end returns the value seen if it is
  truthy and raises \<open>KeyError\<close> otherwise.
\<close>

fun find_no_duplicates_loop :: "string \<Rightarrow> string option \<Rightarrow> cookiejar \<Rightarrow> error + string option" where
  "find_no_duplicates_loop n toReturn [] = Inr toReturn"
| "find_no_duplicates_loop n toReturn (c # cs) =
     (if cookie_name c = n
      then (if toReturn \<noteq> None then Inl (CookieConflictError n)
            else find_no_duplicates_loop n (cookie_value c) cs)
      else find_no_duplicates_loop n toReturn cs)"

definition find_no_duplicates :: "string \<Rightarrow> cookiejar \<Rightarrow> error + string" where
  "find_no_duplicates n jar =
     (case find_no_duplicates_loop n None jar of
        Inl e \<Rightarrow> Inl e
      | Inr None \<Rightarrow> Inl (KeyError n)
      | Inr (Some v) \<Rightarrow> (if v \<noteq> [] then Inr v else Inl (KeyError n)))"

text \<open>\<open>s.strip(chars)\<close>: every leading and every trailing character of \<open>chars\<close> goes.\<close>

definition strip :: "string \<Rightarrow> string \<Rightarrow> string" where
  "strip chars s =
     rev (dropWhile (\<lambda>c. c \<in> set chars) (rev (dropWhile (\<lambda>c. c \<in> set chars) s)))"

subsection \<open>The client, its files and its environment\<close>

record payload =
  session_key :: string
  session_password :: string
  JSESSIONID :: string

record response =
  status_code :: int
  json_body :: "json option"
  cookies :: cookiejar

text \<open>
  The effects of a run, in the order they happen: the GET and the POST on
  \<open>/uas/authenticate\<close> and the writes of cookie files.
\<close>

datatype event =
    NetGet
  | NetPost payload cookiejar
  | FileWrite string cookiejar

text \<open>
  What the client does not decide: the clock (\<open>time.time()\<close>, a finite float, read as
  the real number it denotes; Python compares an integer with a float exactly), the
  answers of the service (a transport failure is an exception, and \<open>json_body\<close> is
  \<open>None\<close> where \<open>res.json()\<close> raises), and \<open>settings.COOKIE_PATH\<close>.
\<close>

record env =
  time_time :: real
  requests_get :: "error + response"
  requests_post :: "payload \<Rightarrow> cookiejar \<Rightarrow> error + response"
  COOKIE_PATH :: string

text \<open>
  The client with the part of the world it writes: the session's jar and headers, the
  cookie files by path (a file holds the pickled jar, and unpickling gives the jar back;
  the directory exists, as \<open>__init__\<close> makes it, and a write goes through), and the
  trace of effects so far.
\<close>

record client =
  use_cookie_cache :: bool
  session_cookies :: cookiejar
  session_headers :: "string \<rightharpoonup> string"
  files :: "string \<rightharpoonup> cookiejar"
  trace :: "event list"

definition REQUEST_HEADERS :: "(string \<times> string) list" where
  "REQUEST_HEADERS =
     [(''user-agent'',
       ''Mozilla/5.0 (Macintosh; Intel Mac OS X 10_13_5) AppleWebKit/537.36 (KHTML, like Gecko) Chrome/66.0.3359.181 Safari/537.36''),
      (''accept-language'', ''en-AU,en-GB;q=0.9,en-US;q=0.8,en;q=0.7''),
      (''x-li-lang'', ''en_US''),
      (''x-restli-protocol-version'', ''2.0.0'')]"

text \<open>\<open>Client.__init__\<close>, on the files and the trace that are there.\<close>

definition init :: "bool \<Rightarrow> (string \<rightharpoonup> cookiejar) \<Rightarrow> event list \<Rightarrow> client" where
  "init refresh_cookies fs tr =
     \<lparr>use_cookie_cache = \<not> refresh_cookies,
      session_cookies = [],
      session_headers = map_of REQUEST_HEADERS,
      files = fs,
      trace = tr\<rparr>"

subsection \<open>The methods of \<open>Client\<close>\<close>

definition request_session_cookies :: "env \<Rightarrow> client \<Rightarrow> (error + cookiejar) \<times> client" where
  "request_session_cookies e st =
     (let st1 = st\<lparr>trace := trace st @ [NetGet]\<rparr> in
      case requests_get e of
        Inl err \<Rightarrow> (Inl err, st1)
      | Inr res \<Rightarrow> (Inr (cookies res), st1))"

definition get_cookiejar_file :: "env \<Rightarrow> string \<Rightarrow> string" where
  "get_cookiejar_file e username = COOKIE_PATH e @ username @ ''.jr''"

definition load_cookies_from_cache :: "env \<Rightarrow> client \<Rightarrow> string \<Rightarrow> bool \<times> cookiejar option" where
  "load_cookies_from_cache e st username =
     (case files st (get_cookiejar_file e username) of
        None \<Rightarrow> (False, None)
      | Some cs \<Rightarrow> (if cs \<noteq> [] then (True, Some cs) else (False, None)))"

text \<open>
  \<open>_set_session_cookies\<close>: the two assignments, then the write of the cookie file. The
  write is taken to go through, as it does for a user name that names a file in the
  cookie directory that \<open>__init__\<close> has made. Where \<open>open\<close> raises \<open>OSError\<close> instead
  (a user name with a path separator into a missing directory), the run of the code
  stops at the write, after the two assignments; the model does not follow such a run.
\<close>

definition set_session_cookies :: "env \<Rightarrow> client \<Rightarrow> cookiejar \<Rightarrow> string \<Rightarrow> (error + unit) \<times> client" where
  "set_session_cookies e st cookiejar username =
     (let st1 = st\<lparr>session_cookies := cookiejar\<rparr> in
      case find_no_duplicates ''JSESSIONID'' (session_cookies st1) of
        Inl err \<Rightarrow> (Inl err, st1)
      | Inr v \<Rightarrow>
          (let st2 = st1\<lparr>session_headers :=
                          (session_headers st1)(''csrf-token'' \<mapsto> strip [CHR 0x22] v)\<rparr>;
               cookiejar_file = get_cookiejar_file e username
           in (Inr (),
               st2\<lparr>files := (files st2)(cookiejar_file \<mapsto> cookiejar),
                   trace := trace st2 @ [FileWrite cookiejar_file cookiejar]\<rparr>)))"

text \<open>
  The loop of \<open>_is_token_still_valid\<close>, with \<open>_now\<close> read before it: the first cookie
  named \<open>JSESSIONID\<close> with a truthy value decides and ends the loop. Its expiry is
  truthy when it is neither \<open>None\<close> nor \<open>0\<close>.
\<close>

fun is_token_still_valid :: "real \<Rightarrow> cookiejar \<Rightarrow> bool" where
  "is_token_still_valid now [] = False"
| "is_token_still_valid now (c # cs) =
     (if cookie_name c = ''JSESSIONID'' \<and> truthy_str (cookie_value c)
      then (case cookie_expires c of
              None \<Rightarrow> False
            | Some x \<Rightarrow> (if x \<noteq> 0 \<and> now < real_of_int x then True else False))
      else is_token_still_valid now cs)"

definition do_authentication_request :: "env \<Rightarrow> client \<Rightarrow> string \<Rightarrow> string \<Rightarrow> (error + unit) \<times> client" where
  "do_authentication_request e st username password =
     (case request_session_cookies e st of
        (Inl err, st1) \<Rightarrow> (Inl err, st1)
      | (Inr anon, st1) \<Rightarrow>
     (case set_session_cookies e st1 anon username of
        (Inl err, st2) \<Rightarrow> (Inl err, st2)
      | (Inr u, st2) \<Rightarrow>
     (case find_no_duplicates ''JSESSIONID'' (session_cookies st2) of
        Inl err \<Rightarrow> (Inl err, st2)
      | Inr sid \<Rightarrow>
     (let pl = \<lparr>session_key = username, session_password = password, JSESSIONID = sid\<rparr>;
          st3 = st2\<lparr>trace := trace st2 @ [NetPost pl (session_cookies st2)]\<rparr>
      in
     (case requests_post e pl (session_cookies st2) of
        Inl err \<Rightarrow> (Inl err, st3)
      | Inr res \<Rightarrow>
     (case json_body res of
        None \<Rightarrow> (Inl JSONDecodeError, st3)
      | Some data \<Rightarrow>
     (let status_checks =
            (if status_code res = 401 then (Inl UnauthorizedException, st3)
             else if status_code res \<noteq> 200 then (Inl PyException, st3)
             else set_session_cookies e st3 (cookies res) username)
      in
      if truthy_json data
      then (case json_getitem data ''login_result'' of
              Inl err \<Rightarrow> (Inl err, st3)
            | Inr login_result \<Rightarrow>
                (if login_result \<noteq> JStr ''PASS''
                 then (Inl (ChallengeException login_result), st3)
                 else status_checks))
      else status_checks)))))))"

definition authenticate :: "env \<Rightarrow> client \<Rightarrow> string \<Rightarrow> string \<Rightarrow> (error + unit) \<times> client" where
  "authenticate e st username password =
     (if use_cookie_cache st
      then (case load_cookies_from_cache e st username of
              (True, Some cs) \<Rightarrow>
                (if is_token_still_valid (time_time e) cs then (Inr (), st)
                 else do_authentication_request e st username password)
            | other \<Rightarrow> do_authentication_request e st username password)
      else do_authentication_request e st username password)"


subsection \<open>Notions used to state the properties\<close>

text \<open>
  The cookie that the loop of \<open>_is_token_still_valid\<close> stops at is the first one that is
  named \<open>JSESSIONID\<close> and has a truthy value; \<open>unexpired\<close> is the test the loop makes on
  it. \<open>has_name\<close> looks at the name alone.
\<close>

definition session_token :: "cookie \<Rightarrow> bool" where
  "session_token c = (cookie_name c = ''JSESSIONID'' \<and> truthy_str (cookie_value c))"

definition has_name :: "string \<Rightarrow> cookie \<Rightarrow> bool" where
  "has_name n c = (cookie_name c = n)"

definition unexpired :: "real \<Rightarrow> cookie \<Rightarrow> bool" where
  "unexpired now c =
     (case cookie_expires c of None \<Rightarrow> False | Some x \<Rightarrow> x \<noteq> 0 \<and> now < real_of_int x)"

text \<open>\<open>authenticate\<close> returns early exactly when the cache is used, found and valid.\<close>

definition cache_hit :: "env \<Rightarrow> client \<Rightarrow> string \<Rightarrow> bool" where
  "cache_hit e st username =
     (use_cookie_cache st \<and>
      (case load_cookies_from_cache e st username of
         (True, Some cs) \<Rightarrow> is_token_still_valid (time_time e) cs
       | other \<Rightarrow> False))"

text \<open>
  A decoded body passes the challenge check of \<open>_do_authentication_request\<close> when it is
  falsy or its \<open>login_result\<close> is the string \<open>PASS\<close>.
\<close>

definition passes_challenge_check :: "json \<Rightarrow> bool" where
  "passes_challenge_check data =
     (if truthy_json data then json_getitem data ''login_result'' = Inr (JStr ''PASS'') else True)"

text \<open>
  The client at the moment the POST has been sent: the anonymous jar is the session's jar
  and is in the user's cookie file.
\<close>

definition posted :: "env \<Rightarrow> client \<Rightarrow> string \<Rightarrow> string \<Rightarrow> cookiejar \<Rightarrow> string \<Rightarrow> client" where
  "posted e st username password anon sid =
     st\<lparr>session_cookies := anon,
        session_headers := (session_headers st)(''csrf-token'' \<mapsto> strip [CHR 0x22] sid),
        files := (files st)(get_cookiejar_file e username \<mapsto> anon),
        trace := trace st @
          [NetGet, FileWrite (get_cookiejar_file e username) anon,
           NetPost \<lparr>session_key = username, session_password = password, JSESSIONID = sid\<rparr> anon]\<rparr>"

text \<open>The network requests among the effects of a run.\<close>

fun is_network_request :: "event \<Rightarrow> bool" where
  "is_network_request NetGet = True"
| "is_network_request (NetPost pl jar) = True"
| "is_network_request (FileWrite f jar) = False"

definition network_requests :: "event list \<Rightarrow> event list" where
  "network_requests tr = filter is_network_request tr"

subsection \<open>Example data\<close>

definition mk_cookie :: "string \<Rightarrow> string option \<Rightarrow> int option \<Rightarrow> cookie" where
  "mk_cookie n v x =
     \<lparr>cookie_name = n, cookie_value = v, cookie_expires = x,
      cookie_domain = ''.www.linkedin.com'', cookie_path = ''/''\<rparr>"

text \<open>With the clock at 1000: the anonymous jar expires in an hour, the other in a day.\<close>

definition anon_jar :: cookiejar where
  "anon_jar = [mk_cookie ''JSESSIONID'' (Some ''abc'') (Some 4600)]"

definition auth_jar :: cookiejar where
  "auth_jar = [mk_cookie ''JSESSIONID'' (Some ''xyz'') (Some 87400)]"

definition quoted_jar :: cookiejar where
  "quoted_jar =
     [mk_cookie ''lang'' (Some ''v=2'') None,
      mk_cookie ''JSESSIONID'' (Some (CHR 0x22 # ''ajax:42'' @ [CHR 0x22])) (Some 4600)]"

text \<open>
  Jars with two cookies named \<open>JSESSIONID\<close>: the second one is set for the path
  \<open>/b\<close>, so the two have different keys and the jar holds both.
\<close>

definition mk_cookie_at :: "string \<Rightarrow> string \<Rightarrow> string option \<Rightarrow> int option \<Rightarrow> cookie" where
  "mk_cookie_at p n v x =
     \<lparr>cookie_name = n, cookie_value = v, cookie_expires = x,
      cookie_domain = ''.www.linkedin.com'', cookie_path = p\<rparr>"

definition skipped_then_fresh :: cookiejar where
  "skipped_then_fresh =
     [mk_cookie ''JSESSIONID'' (Some []) (Some 200),
      mk_cookie_at ''/b'' ''JSESSIONID'' (Some ''a'') (Some 200)]"

definition skipped_then_stale :: cookiejar where
  "skipped_then_stale =
     [mk_cookie ''JSESSIONID'' (Some []) (Some 200),
      mk_cookie_at ''/b'' ''JSESSIONID'' (Some ''a'') (Some 50)]"

definition fresh_then_stale :: cookiejar where
  "fresh_then_stale =
     [mk_cookie ''JSESSIONID'' (Some ''a'') (Some 200),
      mk_cookie_at ''/b'' ''JSESSIONID'' (Some ''b'') (Some 50)]"

definition fresh_then_none :: cookiejar where
  "fresh_then_none =
     [mk_cookie ''JSESSIONID'' (Some ''a'') (Some 200),
      mk_cookie_at ''/b'' ''JSESSIONID'' (Some ''c'') None]"

text \<open>
  A service that hands out \<open>anon_jar\<close> on the GET and answers every POST with the given
  status and decoded body, and \<open>auth_jar\<close> as the response's cookies.
\<close>

definition service :: "int \<Rightarrow> json option \<Rightarrow> env" where
  "service status body =
     \<lparr>time_time = 1000,
      requests_get = Inr \<lparr>status_code = 200, json_body = None, cookies = anon_jar\<rparr>,
      requests_post = (\<lambda>pl jar. Inr \<lparr>status_code = status, json_body = body, cookies = auth_jar\<rparr>),
      COOKIE_PATH = ''cookies/''\<rparr>"

definition challenge_body :: json where
  "challenge_body = JDict [(''login_result'', JStr ''CHALLENGE'')]"

definition pass_body :: json where
  "pass_body = JDict [(''login_result'', JStr ''PASS'')]"

definition alice_payload :: payload where
  "alice_payload = \<lparr>session_key = ''alice'', session_password = ''secret'', JSESSIONID = ''abc''\<rparr>"

definition unauthorized_response :: response where
  "unauthorized_response = \<lparr>status_code = 401, json_body = Some (JDict []), cookies = auth_jar\<rparr>"

text \<open>A client that may use the cache, without a cookie file and with one for alice.\<close>

definition no_cache_client :: client where
  "no_cache_client = init False Map.empty []"

definition cached_client :: "cookiejar \<Rightarrow> client" where
  "cached_client jar = init False [''cookies/alice.jr'' \<mapsto> jar] []"

text \<open>
  The client after alice's login has been refused: the service answers the POST with
  status 401 and the body \<open>{}\<close>.
\<close>

definition after_failed_login :: client where
  "after_failed_login =
     snd (authenticate (service 401 (Some (JDict []))) no_cache_client ''alice'' ''secret'')"

lemmas example_defs =
  service_def init_def anon_jar_def auth_jar_def mk_cookie_def challenge_body_def pass_body_def
  alice_payload_def no_cache_client_def cached_client_def

lemmas client_defs =
  authenticate_def do_authentication_request_def request_session_cookies_def
  set_session_cookies_def find_no_duplicates_def load_cookies_from_cache_def
  get_cookiejar_file_def truthy_str_def strip_def Let_def

section \<open>Properties\<close>

subsection \<open>The validity check\<close>

lemma is_token_still_valid_find:
  "is_token_still_valid now jar =
     (case find session_token jar of None \<Rightarrow> False | Some c \<Rightarrow> unexpired now c)"
  by (induction jar) (auto simp: session_token_def unexpired_def split: option.splits)

lemma find_session_token_absent:
  "''JSESSIONID'' \<notin> cookie_name ` set jar \<Longrightarrow> find session_token jar = None"
  by (induction jar) (auto simp: session_token_def)

text \<open>
  Claim C2, as stated, fails: a jar whose only cookie is named \<open>JSESSIONID\<close> and expires
  at 200 is not valid at time 100 when the cookie's value is empty, because the loop
  passes over a cookie with a falsy value.
\<close>

theorem is_token_still_valid_empty_value_counterexample:
  "mk_cookie ''JSESSIONID'' (Some []) (Some 200) \<in> set [mk_cookie ''JSESSIONID'' (Some []) (Some 200)]
 \<and> cookie_name (mk_cookie ''JSESSIONID'' (Some []) (Some 200)) = ''JSESSIONID''
 \<and> cookie_expires (mk_cookie ''JSESSIONID'' (Some []) (Some 200)) = Some 200
 \<and> (100::real) < real_of_int 200
 \<and> \<not> is_token_still_valid 100 [mk_cookie ''JSESSIONID'' (Some []) (Some 200)]"
  by (simp add: mk_cookie_def truthy_str_def)

text \<open>
  Claim C2, amended. Let \<open>c\<close> be the first cookie of the jar that is named \<open>JSESSIONID\<close>
  and has a non-empty value. If \<open>c\<close> has an expiry other than 0 that is strictly greater
  than now, the jar is valid; if the expiry of \<open>c\<close> is at most now, it is not; if no
  cookie of the jar is named \<open>JSESSIONID\<close>, or none of them has a non-empty value, it is
  not; and if \<open>c\<close> carries no expiry, it is not.
\<close>

theorem is_token_still_valid_cases:
  "(find session_token jar = Some c \<and> cookie_expires c = Some x \<and> x \<noteq> 0 \<and> now < real_of_int x
      \<longrightarrow> is_token_still_valid now jar)
 \<and> (find session_token jar = Some c \<and> cookie_expires c = Some x \<and> real_of_int x \<le> now
      \<longrightarrow> \<not> is_token_still_valid now jar)
 \<and> (''JSESSIONID'' \<notin> cookie_name ` set jar \<longrightarrow> \<not> is_token_still_valid now jar)
 \<and> (find session_token jar = None \<longrightarrow> \<not> is_token_still_valid now jar)
 \<and> (find session_token jar = Some c \<and> cookie_expires c = None
      \<longrightarrow> \<not> is_token_still_valid now jar)"
proof (intro conjI impI)
  assume "find session_token jar = Some c \<and> cookie_expires c = Some x \<and> x \<noteq> 0
            \<and> now < real_of_int x"
  then show "is_token_still_valid now jar"
    by (simp add: is_token_still_valid_find unexpired_def)
next
  assume "find session_token jar = Some c \<and> cookie_expires c = Some x \<and> real_of_int x \<le> now"
  then show "\<not> is_token_still_valid now jar"
    by (simp add: is_token_still_valid_find unexpired_def)
next
  assume "''JSESSIONID'' \<notin> cookie_name ` set jar"
  then have "find session_token jar = None"
    by (rule find_session_token_absent)
  then show "\<not> is_token_still_valid now jar"
    by (simp add: is_token_still_valid_find)
next
  assume "find session_token jar = None"
  then show "\<not> is_token_still_valid now jar"
    by (simp add: is_token_still_valid_find)
next
  assume "find session_token jar = Some c \<and> cookie_expires c = None"
  then show "\<not> is_token_still_valid now jar"
    by (simp add: is_token_still_valid_find unexpired_def)
qed

theorem is_token_still_valid_cases_witness:
  "is_token_still_valid 1000 auth_jar
 \<and> \<not> is_token_still_valid 87400 auth_jar
 \<and> \<not> is_token_still_valid 1000 [mk_cookie ''li_at'' (Some ''t'') (Some 87400)]
 \<and> \<not> is_token_still_valid 1000 [mk_cookie ''JSESSIONID'' (Some []) (Some 87400)]
 \<and> \<not> is_token_still_valid 1000 [mk_cookie ''JSESSIONID'' (Some ''xyz'') None]"
proof -
  have f: "find session_token auth_jar = Some (mk_cookie ''JSESSIONID'' (Some ''xyz'') (Some 87400))"
    by (simp add: example_defs session_token_def truthy_str_def)
  have x: "cookie_expires (mk_cookie ''JSESSIONID'' (Some ''xyz'') (Some 87400)) = Some 87400"
    by (simp add: mk_cookie_def)
  have a: "''JSESSIONID'' \<notin> cookie_name ` set [mk_cookie ''li_at'' (Some ''t'') (Some 87400)]"
    by (simp add: mk_cookie_def)
  have n: "find session_token [mk_cookie ''JSESSIONID'' (Some []) (Some 87400)] = None"
    by (simp add: mk_cookie_def session_token_def truthy_str_def)
  have g: "find session_token [mk_cookie ''JSESSIONID'' (Some ''xyz'') None]
             = Some (mk_cookie ''JSESSIONID'' (Some ''xyz'') None)"
    by (simp add: mk_cookie_def session_token_def truthy_str_def)
  have y: "cookie_expires (mk_cookie ''JSESSIONID'' (Some ''xyz'') None) = None"
    by (simp add: mk_cookie_def)
  show ?thesis
    using is_token_still_valid_cases
        [of auth_jar "mk_cookie ''JSESSIONID'' (Some ''xyz'') (Some 87400)" 87400 1000]
      is_token_still_valid_cases
        [of auth_jar "mk_cookie ''JSESSIONID'' (Some ''xyz'') (Some 87400)" 87400 87400]
      is_token_still_valid_cases
        [of "[mk_cookie ''li_at'' (Some ''t'') (Some 87400)]" _ _ 1000]
      is_token_still_valid_cases
        [of "[mk_cookie ''JSESSIONID'' (Some []) (Some 87400)]" _ _ 1000]
      is_token_still_valid_cases
        [of "[mk_cookie ''JSESSIONID'' (Some ''xyz'') None]"
            "mk_cookie ''JSESSIONID'' (Some ''xyz'') None" _ 1000]
      f x a n g y
    by simp
qed

text \<open>
  Claim C7, as stated, fails: two jars that agree on their first cookie named
  \<open>JSESSIONID\<close> get different verdicts at time 100. That first cookie has an empty value,
  so the loop goes on to the second cookie of the name (set for another path), and the
  two jars differ there. In each jar the two cookies have different keys.
\<close>

theorem is_token_still_valid_first_named_counterexample:
  "distinct (map cookie_key skipped_then_fresh)
 \<and> distinct (map cookie_key skipped_then_stale)
 \<and> find (has_name ''JSESSIONID'') skipped_then_fresh = find (has_name ''JSESSIONID'') skipped_then_stale
 \<and> is_token_still_valid 100 skipped_then_fresh
 \<and> \<not> is_token_still_valid 100 skipped_then_stale"
  by (simp add: skipped_then_fresh_def skipped_then_stale_def mk_cookie_def mk_cookie_at_def
      cookie_key_def truthy_str_def has_name_def)

text \<open>
  Claim C7, amended. The verdict is determined solely by the first cookie of the jar that
  is named \<open>JSESSIONID\<close> and has a non-empty value: two jars that agree on that cookie get
  the same verdict, whatever cookies come after it, and cookies of the name with an empty
  or missing value before it are passed over.
\<close>

theorem is_token_still_valid_first_token:
  assumes "find session_token jar1 = find session_token jar2"
  shows "is_token_still_valid now jar1 = is_token_still_valid now jar2"
proof -
  have "is_token_still_valid now jar1 =
          (case find session_token jar1 of None \<Rightarrow> False | Some c \<Rightarrow> unexpired now c)"
    by (rule is_token_still_valid_find)
  also have "\<dots> = (case find session_token jar2 of None \<Rightarrow> False | Some c \<Rightarrow> unexpired now c)"
    using assms by simp
  also have "\<dots> = is_token_still_valid now jar2"
    by (simp add: is_token_still_valid_find)
  finally show ?thesis .
qed

theorem is_token_still_valid_first_token_witness:
  "distinct (map cookie_key fresh_then_stale)
 \<and> distinct (map cookie_key fresh_then_none)
 \<and> fresh_then_stale \<noteq> fresh_then_none
 \<and> find session_token fresh_then_stale = find session_token fresh_then_none
 \<and> is_token_still_valid 100 fresh_then_stale = is_token_still_valid 100 fresh_then_none
 \<and> is_token_still_valid 100 fresh_then_stale"
proof -
  have k: "distinct (map cookie_key fresh_then_stale)" "distinct (map cookie_key fresh_then_none)"
    by (simp_all add: fresh_then_stale_def fresh_then_none_def mk_cookie_def mk_cookie_at_def
        cookie_key_def)
  have d: "fresh_then_stale \<noteq> fresh_then_none"
    by (simp add: fresh_then_stale_def fresh_then_none_def mk_cookie_at_def)
  have h: "find session_token fresh_then_stale = find session_token fresh_then_none"
    by (simp add: fresh_then_stale_def fresh_then_none_def mk_cookie_def session_token_def
        truthy_str_def)
  have v: "is_token_still_valid 100 fresh_then_stale"
    by (simp add: fresh_then_stale_def mk_cookie_def truthy_str_def)
  show ?thesis using is_token_still_valid_first_token [OF h, of 100] k d h v by simp
qed

subsection \<open>Setting the session's cookies\<close>

lemma set_session_cookies_Inr:
  "find_no_duplicates ''JSESSIONID'' jar = Inr v \<Longrightarrow>
   set_session_cookies e st jar username =
     (Inr (), st\<lparr>session_cookies := jar,
        session_headers := (session_headers st)(''csrf-token'' \<mapsto> strip [CHR 0x22] v),
        files := (files st)(get_cookiejar_file e username \<mapsto> jar),
        trace := trace st @ [FileWrite (get_cookiejar_file e username) jar]\<rparr>)"
  by (simp add: set_session_cookies_def Let_def)

lemma set_session_cookies_Inl:
  "find_no_duplicates ''JSESSIONID'' jar = Inl err \<Longrightarrow>
   set_session_cookies e st jar username = (Inl err, st\<lparr>session_cookies := jar\<rparr>)"
  by (simp add: set_session_cookies_def)

lemma fst_set_session_cookies_Inr:
  "fst (set_session_cookies e st jar username) = Inr u \<Longrightarrow>
   \<exists>v. find_no_duplicates ''JSESSIONID'' jar = Inr v"
  by (cases "find_no_duplicates ''JSESSIONID'' jar") (auto simp: set_session_cookies_Inl)

lemma find_no_duplicates_loop_seen:
  "find_no_duplicates_loop n (Some w) jar = Inr r \<Longrightarrow> r = Some w"
  by (induction jar) (auto split: if_splits)

lemma find_no_duplicates_loop_token:
  "find_no_duplicates_loop ''JSESSIONID'' None jar = Inr (Some v) \<Longrightarrow> v \<noteq> [] \<Longrightarrow>
   \<exists>c. find session_token jar = Some c \<and> cookie_value c = Some v"
proof (induction jar)
  case Nil
  then show ?case by simp
next
  case (Cons c cs)
  show ?case
  proof (cases "cookie_name c = ''JSESSIONID''")
    case False
    then show ?thesis using Cons by (simp add: session_token_def)
  next
    case True
    show ?thesis
    proof (cases "cookie_value c")
      case None
      then show ?thesis using True Cons by (simp add: session_token_def truthy_str_def)
    next
      case (Some w)
      then have "Some v = Some w"
        using True Cons.prems(1) find_no_duplicates_loop_seen [of "''JSESSIONID''" w cs "Some v"]
        by simp
      then show ?thesis using True Some Cons.prems(2)
        by (simp add: session_token_def truthy_str_def)
    qed
  qed
qed

lemma find_no_duplicates_token:
  "find_no_duplicates ''JSESSIONID'' jar = Inr v \<Longrightarrow>
   \<exists>c. find session_token jar = Some c \<and> cookie_value c = Some v"
  using find_no_duplicates_loop_token [of jar v]
  by (auto simp: find_no_duplicates_def split: sum.splits option.splits if_splits)

lemma find_no_duplicates_loop_absent:
  "n \<notin> cookie_name ` set jar \<Longrightarrow> find_no_duplicates_loop n acc jar = Inr acc"
  by (induction jar) auto

lemma find_no_duplicates_absent:
  "n \<notin> cookie_name ` set jar \<Longrightarrow> find_no_duplicates n jar = Inl (KeyError n)"
  by (simp add: find_no_duplicates_def find_no_duplicates_loop_absent)

lemma find_no_duplicates_single:
  "cookie_name c = n \<Longrightarrow> cookie_value c = Some v \<Longrightarrow> v \<noteq> [] \<Longrightarrow>
   find_no_duplicates n [c] = Inr v"
  by (simp add: find_no_duplicates_def)

text \<open>
  Claim C10. After every call of \<open>_set_session_cookies(jar, username)\<close> that returns, the
  session's cookies are the given jar and the session's \<open>csrf-token\<close> header is the value
  of the jar's \<open>JSESSIONID\<close> cookie (the value that the jar's lookup of that name gives,
  which is the value of the first cookie of that name with a non-empty value) with the
  double quotes at both ends stripped. On a jar with no cookie named \<open>JSESSIONID\<close> the
  call raises \<open>KeyError\<close>, after the assignment of the jar and before any write.
\<close>

theorem set_session_cookies_csrf_token:
  "(set_session_cookies e st jar username = (Inr (), st') \<longrightarrow>
      session_cookies st' = jar \<and>
      (\<exists>c v. find session_token jar = Some c \<and> cookie_value c = Some v \<and>
             find_no_duplicates ''JSESSIONID'' (session_cookies st') = Inr v \<and>
             session_headers st' ''csrf-token'' = Some (strip [CHR 0x22] v)))
 \<and> (''JSESSIONID'' \<notin> cookie_name ` set jar \<longrightarrow>
      set_session_cookies e st jar username =
        (Inl (KeyError ''JSESSIONID''), st\<lparr>session_cookies := jar\<rparr>))"
proof (intro conjI impI)
  assume ok: "set_session_cookies e st jar username = (Inr (), st')"
  then obtain v where v: "find_no_duplicates ''JSESSIONID'' jar = Inr v"
    using fst_set_session_cookies_Inr [of e st jar username "()"] by auto
  from ok v show "session_cookies st' = jar"
    by (auto simp: set_session_cookies_Inr)
  from ok v find_no_duplicates_token [OF v]
  show "\<exists>c v. find session_token jar = Some c \<and> cookie_value c = Some v \<and>
             find_no_duplicates ''JSESSIONID'' (session_cookies st') = Inr v \<and>
             session_headers st' ''csrf-token'' = Some (strip [CHR 0x22] v)"
    by (auto simp: set_session_cookies_Inr)
next
  assume "''JSESSIONID'' \<notin> cookie_name ` set jar"
  then show "set_session_cookies e st jar username =
        (Inl (KeyError ''JSESSIONID''), st\<lparr>session_cookies := jar\<rparr>)"
    by (simp add: find_no_duplicates_absent set_session_cookies_Inl)
qed

theorem set_session_cookies_csrf_token_witness:
  "fst (set_session_cookies (service 200 None) no_cache_client quoted_jar ''alice'') = Inr ()
 \<and> session_cookies (snd (set_session_cookies (service 200 None) no_cache_client quoted_jar ''alice''))
      = quoted_jar
 \<and> session_headers (snd (set_session_cookies (service 200 None) no_cache_client quoted_jar ''alice''))
      ''csrf-token'' = Some ''ajax:42''
 \<and> ''JSESSIONID'' \<notin> cookie_name ` set [mk_cookie ''lang'' (Some ''v=2'') None]
 \<and> fst (set_session_cookies (service 200 None) no_cache_client
           [mk_cookie ''lang'' (Some ''v=2'') None] ''alice'')
      = Inl (KeyError ''JSESSIONID'')"
proof -
  let ?S = "snd (set_session_cookies (service 200 None) no_cache_client quoted_jar ''alice'')"
  have ok: "set_session_cookies (service 200 None) no_cache_client quoted_jar ''alice'' = (Inr (), ?S)"
    by (simp add: quoted_jar_def mk_cookie_def set_session_cookies_def find_no_duplicates_def Let_def)
  have v: "find_no_duplicates ''JSESSIONID'' quoted_jar = Inr (CHR 0x22 # ''ajax:42'' @ [CHR 0x22])"
    by (simp add: quoted_jar_def mk_cookie_def find_no_duplicates_def)
  have s: "strip [CHR 0x22] (CHR 0x22 # ''ajax:42'' @ [CHR 0x22]) = ''ajax:42''"
    by (simp add: strip_def)
  have a: "''JSESSIONID'' \<notin> cookie_name ` set [mk_cookie ''lang'' (Some ''v=2'') None]"
    by (simp add: mk_cookie_def)
  have r: "fst (set_session_cookies (service 200 None) no_cache_client quoted_jar ''alice'') = Inr ()"
    using ok by (metis fst_conv)
  have "session_cookies ?S = quoted_jar \<and>
      (\<exists>c w. find session_token quoted_jar = Some c \<and> cookie_value c = Some w \<and>
             find_no_duplicates ''JSESSIONID'' (session_cookies ?S) = Inr w \<and>
             session_headers ?S ''csrf-token'' = Some (strip [CHR 0x22] w))"
    using set_session_cookies_csrf_token
      [of "service 200 None" no_cache_client quoted_jar "''alice''" ?S] ok
    by blast
  then have j: "session_cookies ?S = quoted_jar"
    and h: "session_headers ?S ''csrf-token'' = Some ''ajax:42''"
    using v s by auto
  have k: "fst (set_session_cookies (service 200 None) no_cache_client
                  [mk_cookie ''lang'' (Some ''v=2'') None] ''alice'') = Inl (KeyError ''JSESSIONID'')"
    using set_session_cookies_csrf_token
      [of "service 200 None" no_cache_client "[mk_cookie ''lang'' (Some ''v=2'') None]" "''alice''"] a
    by simp
  show ?thesis using r j h a k by blast
qed

subsection \<open>The cache\<close>

lemma authenticate_cases:
  "authenticate e st username password =
     (if cache_hit e st username then (Inr (), st)
      else do_authentication_request e st username password)"
  by (auto simp: authenticate_def cache_hit_def split: prod.splits bool.splits option.splits)

lemma do_authentication_request_NetGet:
  "\<exists>rest. trace (snd (do_authentication_request e st username password)) = trace st @ NetGet # rest"
  by (auto simp: do_authentication_request_def request_session_cookies_def set_session_cookies_def
      Let_def split: sum.splits option.splits)

text \<open>
  Claim C1. For every user name and password: when the client uses the cookie cache
  (\<open>refresh_cookies\<close> was false), the load of the user's cookie file succeeds and the
  loaded jar is valid at the current time, \<open>authenticate\<close> returns normally and leaves the
  client as it was. In particular the trace is the same, so no GET and no POST has been
  made: neither \<open>_request_session_cookies\<close> nor the POST of
  \<open>_do_authentication_request\<close> has run.
\<close>

theorem authenticate_cache_hit_no_network:
  assumes "use_cookie_cache st"
    and "load_cookies_from_cache e st username = (True, Some cs)"
    and "is_token_still_valid (time_time e) cs"
  shows "authenticate e st username password = (Inr (), st)
     \<and> network_requests (trace (snd (authenticate e st username password)))
         = network_requests (trace st)"
  using assms by (simp add: authenticate_def)

theorem authenticate_cache_hit_no_network_witness:
  "use_cookie_cache (cached_client auth_jar)
 \<and> load_cookies_from_cache (service 200 (Some pass_body)) (cached_client auth_jar) ''alice''
      = (True, Some auth_jar)
 \<and> is_token_still_valid (time_time (service 200 (Some pass_body))) auth_jar
 \<and> authenticate (service 200 (Some pass_body)) (cached_client auth_jar) ''alice'' ''secret''
      = (Inr (), cached_client auth_jar)
 \<and> network_requests
      (trace (snd (authenticate (service 200 (Some pass_body)) (cached_client auth_jar)
                     ''alice'' ''secret''))) = []"
proof -
  have h1: "use_cookie_cache (cached_client auth_jar)"
    by (simp add: example_defs)
  have h2: "load_cookies_from_cache (service 200 (Some pass_body)) (cached_client auth_jar) ''alice''
              = (True, Some auth_jar)"
    by (simp add: example_defs load_cookies_from_cache_def get_cookiejar_file_def)
  have h3: "is_token_still_valid (time_time (service 200 (Some pass_body))) auth_jar"
    by (simp add: example_defs truthy_str_def)
  have t: "network_requests (trace (cached_client auth_jar)) = []"
    by (simp add: cached_client_def init_def network_requests_def)
  show ?thesis
    using authenticate_cache_hit_no_network [OF h1 h2 h3, of "''secret''"] h1 h2 h3 t by simp
qed

text \<open>
  Claim C9. When the user's cookie file exists and holds an empty jar, the load returns
  \<open>(False, None)\<close>, which is what it returns when the file is missing; \<open>authenticate\<close>
  then does what \<open>_do_authentication_request\<close> does, and that starts with the GET for
  an anonymous session.
\<close>

theorem authenticate_empty_cached_jar:
  assumes "files st (get_cookiejar_file e username) = Some []"
  shows "load_cookies_from_cache e st username = (False, None)
     \<and> load_cookies_from_cache e
         (st\<lparr>files := (files st)(get_cookiejar_file e username := None)\<rparr>) username = (False, None)
     \<and> authenticate e st username password = do_authentication_request e st username password
     \<and> (\<exists>rest. trace (snd (authenticate e st username password)) = trace st @ NetGet # rest)"
proof -
  have a: "authenticate e st username password = do_authentication_request e st username password"
    using assms by (simp add: authenticate_def load_cookies_from_cache_def)
  show ?thesis
    using assms a do_authentication_request_NetGet [of e st username password]
    by (simp add: load_cookies_from_cache_def)
qed

theorem authenticate_empty_cached_jar_witness:
  "files (cached_client []) (get_cookiejar_file (service 200 (Some pass_body)) ''alice'') = Some []
 \<and> load_cookies_from_cache (service 200 (Some pass_body)) (cached_client []) ''alice'' = (False, None)
 \<and> fst (authenticate (service 200 (Some pass_body)) (cached_client []) ''alice'' ''secret'') = Inr ()
 \<and> files (snd (authenticate (service 200 (Some pass_body)) (cached_client []) ''alice'' ''secret''))
      ''cookies/alice.jr'' = Some auth_jar"
proof -
  have h: "files (cached_client []) (get_cookiejar_file (service 200 (Some pass_body)) ''alice'') = Some []"
    by (simp add: example_defs get_cookiejar_file_def)
  have r: "fst (do_authentication_request (service 200 (Some pass_body)) (cached_client [])
                  ''alice'' ''secret'') = Inr ()
     \<and> files (snd (do_authentication_request (service 200 (Some pass_body)) (cached_client [])
                      ''alice'' ''secret'')) ''cookies/alice.jr'' = Some auth_jar"
    by (simp add: example_defs client_defs)
  show ?thesis using authenticate_empty_cached_jar [OF h, of "''secret''"] h r by simp
qed

subsection \<open>The authentication request\<close>

text \<open>
  Once the GET has given a jar in which \<open>JSESSIONID\<close> can be looked up, the run reaches
  the POST, and what is left is the reading of the response.
\<close>

lemma do_authentication_request_posted:
  assumes "requests_get e = Inr r0"
    and "find_no_duplicates ''JSESSIONID'' (cookies r0) = Inr sid"
  shows "do_authentication_request e st username password =
     (case requests_post e \<lparr>session_key = username, session_password = password, JSESSIONID = sid\<rparr> (cookies r0) of
        Inl err \<Rightarrow> (Inl err, posted e st username password (cookies r0) sid)
      | Inr res \<Rightarrow>
          (case json_body res of
             None \<Rightarrow> (Inl JSONDecodeError, posted e st username password (cookies r0) sid)
           | Some data \<Rightarrow>
               if truthy_json data \<and> json_getitem data ''login_result'' \<noteq> Inr (JStr ''PASS'')
               then (case json_getitem data ''login_result'' of
                       Inl err \<Rightarrow> (Inl err, posted e st username password (cookies r0) sid)
                     | Inr v \<Rightarrow>
                         (Inl (ChallengeException v), posted e st username password (cookies r0) sid))
               else if status_code res = 401
               then (Inl UnauthorizedException, posted e st username password (cookies r0) sid)
               else if status_code res \<noteq> 200
               then (Inl PyException, posted e st username password (cookies r0) sid)
               else set_session_cookies e (posted e st username password (cookies r0) sid)
                      (cookies res) username))"
  using assms
  by (auto simp: do_authentication_request_def request_session_cookies_def
      set_session_cookies_Inr posted_def Let_def split: sum.splits option.splits)

lemma json_getitem_present:
  "map_of kvs k = Some v \<Longrightarrow> truthy_json (JDict kvs) \<and> json_getitem (JDict kvs) k = Inr v"
  by (cases kvs) auto

text \<open>
  Claim C3. In every run of \<open>authenticate\<close> that gets a response from the authentication
  endpoint (no cache hit, the GET gave a jar in which \<open>JSESSIONID\<close> can be looked up, the
  POST returned), if the decoded body is a dictionary whose \<open>login_result\<close> is not the
  string \<open>PASS\<close>, then \<open>authenticate\<close> raises \<open>ChallengeException\<close> with that value.
  Nothing is assumed of the status code: the check of the body comes first.
\<close>

theorem authenticate_challenge_before_status:
  assumes "\<not> cache_hit e st username"
    and "requests_get e = Inr r0"
    and "find_no_duplicates ''JSESSIONID'' (cookies r0) = Inr sid"
    and "requests_post e \<lparr>session_key = username, session_password = password, JSESSIONID = sid\<rparr> (cookies r0) = Inr res"
    and "json_body res = Some (JDict kvs)"
    and "map_of kvs ''login_result'' = Some v"
    and "v \<noteq> JStr ''PASS''"
  shows "fst (authenticate e st username password) = Inl (ChallengeException v)"
  using assms json_getitem_present [of kvs "''login_result''" v]
  by (simp add: authenticate_cases do_authentication_request_posted)

theorem authenticate_challenge_before_status_witness:
  "\<not> cache_hit (service 200 (Some challenge_body)) no_cache_client ''alice''
 \<and> requests_post (service 200 (Some challenge_body)) alice_payload anon_jar
      = Inr \<lparr>status_code = 200, json_body = Some challenge_body, cookies = auth_jar\<rparr>
 \<and> fst (authenticate (service 200 (Some challenge_body)) no_cache_client ''alice'' ''secret'')
      = Inl (ChallengeException (JStr ''CHALLENGE''))"
proof -
  have m: "\<not> cache_hit (service 200 (Some challenge_body)) no_cache_client ''alice''"
    by (simp add: cache_hit_def load_cookies_from_cache_def no_cache_client_def init_def)
  have g: "requests_get (service 200 (Some challenge_body))
             = Inr \<lparr>status_code = 200, json_body = None, cookies = anon_jar\<rparr>"
    by (simp add: service_def)
  have s: "find_no_duplicates ''JSESSIONID''
             (cookies \<lparr>status_code = 200, json_body = None, cookies = anon_jar\<rparr>) = Inr ''abc''"
    by (simp add: find_no_duplicates_def anon_jar_def mk_cookie_def)
  have p: "requests_post (service 200 (Some challenge_body))
             \<lparr>session_key = ''alice'', session_password = ''secret'', JSESSIONID = ''abc''\<rparr>
             (cookies \<lparr>status_code = 200, json_body = None, cookies = anon_jar\<rparr>)
           = Inr \<lparr>status_code = 200, json_body = Some challenge_body, cookies = auth_jar\<rparr>"
    by (simp add: service_def)
  have b: "json_body \<lparr>status_code = 200, json_body = Some challenge_body, cookies = auth_jar\<rparr>
             = Some (JDict [(''login_result'', JStr ''CHALLENGE'')])"
    by (simp add: challenge_body_def)
  have k: "map_of [(''login_result'', JStr ''CHALLENGE'')] ''login_result'' = Some (JStr ''CHALLENGE'')"
    by simp
  have n: "JStr ''CHALLENGE'' \<noteq> JStr ''PASS''"
    by simp
  show ?thesis
    using authenticate_challenge_before_status [OF m g s p b k n] m p
    by (simp add: alice_payload_def)
qed

text \<open>
  Claim C5, as stated, fails: when the endpoint answers with status 401 and the body
  \<open>{"login_result": "CHALLENGE"}\<close>, \<open>authenticate\<close> raises \<open>ChallengeException\<close> and
  not \<open>UnauthorizedException\<close>, since the body is checked before the status.
\<close>

theorem authenticate_401_with_challenge_body_counterexample:
  "requests_post (service 401 (Some challenge_body)) alice_payload anon_jar
      = Inr \<lparr>status_code = 401, json_body = Some challenge_body, cookies = auth_jar\<rparr>
 \<and> fst (authenticate (service 401 (Some challenge_body)) no_cache_client ''alice'' ''secret'')
      = Inl (ChallengeException (JStr ''CHALLENGE''))
 \<and> fst (authenticate (service 401 (Some challenge_body)) no_cache_client ''alice'' ''secret'')
      \<noteq> Inl UnauthorizedException"
  by (simp add: example_defs client_defs)

text \<open>
  Claim C5, amended. In every run of \<open>authenticate\<close> that gets a response from the
  authentication endpoint, if the status is 401 and the body decodes to a value that
  passes the challenge check (it is falsy, or its \<open>login_result\<close> is \<open>PASS\<close>), then
  \<open>authenticate\<close> raises \<open>UnauthorizedException\<close>.
\<close>

theorem authenticate_unauthorized:
  assumes "\<not> cache_hit e st username"
    and "requests_get e = Inr r0"
    and "find_no_duplicates ''JSESSIONID'' (cookies r0) = Inr sid"
    and "requests_post e \<lparr>session_key = username, session_password = password, JSESSIONID = sid\<rparr> (cookies r0) = Inr res"
    and "json_body res = Some data"
    and "passes_challenge_check data"
    and "status_code res = 401"
  shows "fst (authenticate e st username password) = Inl UnauthorizedException"
  using assms
  by (auto simp: authenticate_cases do_authentication_request_posted passes_challenge_check_def)

theorem authenticate_unauthorized_witness:
  "\<not> cache_hit (service 401 (Some pass_body)) no_cache_client ''alice''
 \<and> passes_challenge_check pass_body
 \<and> fst (authenticate (service 401 (Some pass_body)) no_cache_client ''alice'' ''secret'')
      = Inl UnauthorizedException"
proof -
  have m: "\<not> cache_hit (service 401 (Some pass_body)) no_cache_client ''alice''"
    by (simp add: cache_hit_def load_cookies_from_cache_def no_cache_client_def init_def)
  have g: "requests_get (service 401 (Some pass_body))
             = Inr \<lparr>status_code = 200, json_body = None, cookies = anon_jar\<rparr>"
    by (simp add: service_def)
  have s: "find_no_duplicates ''JSESSIONID''
             (cookies \<lparr>status_code = 200, json_body = None, cookies = anon_jar\<rparr>) = Inr ''abc''"
    by (simp add: find_no_duplicates_def anon_jar_def mk_cookie_def)
  have p: "requests_post (service 401 (Some pass_body))
             \<lparr>session_key = ''alice'', session_password = ''secret'', JSESSIONID = ''abc''\<rparr>
             (cookies \<lparr>status_code = 200, json_body = None, cookies = anon_jar\<rparr>)
           = Inr \<lparr>status_code = 401, json_body = Some pass_body, cookies = auth_jar\<rparr>"
    by (simp add: service_def)
  have b: "json_body \<lparr>status_code = 401, json_body = Some pass_body, cookies = auth_jar\<rparr>
             = Some pass_body"
    by simp
  have c: "passes_challenge_check pass_body"
    by (simp add: passes_challenge_check_def pass_body_def)
  have u: "status_code \<lparr>status_code = 401, json_body = Some pass_body, cookies = auth_jar\<rparr> = 401"
    by simp
  show ?thesis using authenticate_unauthorized [OF m g s p b c u] m c by simp
qed

text \<open>
  Claim C8, as stated, fails: the exception raised for a status that is neither 200 nor
  401 is a bare \<open>Exception()\<close>. The runs with status 500 and with status 503 end in the
  same failure, so the failure does not carry the status code.
\<close>

theorem authenticate_status_not_carried_counterexample:
  "requests_post (service 500 (Some pass_body)) alice_payload anon_jar
      = Inr \<lparr>status_code = 500, json_body = Some pass_body, cookies = auth_jar\<rparr>
 \<and> requests_post (service 503 (Some pass_body)) alice_payload anon_jar
      = Inr \<lparr>status_code = 503, json_body = Some pass_body, cookies = auth_jar\<rparr>
 \<and> fst (authenticate (service 500 (Some pass_body)) no_cache_client ''alice'' ''secret'')
      = fst (authenticate (service 503 (Some pass_body)) no_cache_client ''alice'' ''secret'')"
  by (simp add: example_defs client_defs)

text \<open>
  Claim C8, amended. In every run of \<open>authenticate\<close> that gets a response from the
  authentication endpoint, if the body passes the challenge check and the status is
  neither 200 nor 401, then \<open>authenticate\<close> raises a plain \<open>Exception\<close> without
  arguments, the same for every such status.
\<close>

theorem authenticate_other_status:
  assumes "\<not> cache_hit e st username"
    and "requests_get e = Inr r0"
    and "find_no_duplicates ''JSESSIONID'' (cookies r0) = Inr sid"
    and "requests_post e \<lparr>session_key = username, session_password = password, JSESSIONID = sid\<rparr> (cookies r0) = Inr res"
    and "json_body res = Some data"
    and "passes_challenge_check data"
    and "status_code res \<noteq> 200"
    and "status_code res \<noteq> 401"
  shows "fst (authenticate e st username password) = Inl PyException"
  using assms
  by (auto simp: authenticate_cases do_authentication_request_posted passes_challenge_check_def)

theorem authenticate_other_status_witness:
  "\<not> cache_hit (service 500 (Some pass_body)) no_cache_client ''alice''
 \<and> passes_challenge_check pass_body
 \<and> fst (authenticate (service 500 (Some pass_body)) no_cache_client ''alice'' ''secret'')
      = Inl PyException"
proof -
  have m: "\<not> cache_hit (service 500 (Some pass_body)) no_cache_client ''alice''"
    by (simp add: cache_hit_def load_cookies_from_cache_def no_cache_client_def init_def)
  have g: "requests_get (service 500 (Some pass_body))
             = Inr \<lparr>status_code = 200, json_body = None, cookies = anon_jar\<rparr>"
    by (simp add: service_def)
  have s: "find_no_duplicates ''JSESSIONID''
             (cookies \<lparr>status_code = 200, json_body = None, cookies = anon_jar\<rparr>) = Inr ''abc''"
    by (simp add: find_no_duplicates_def anon_jar_def mk_cookie_def)
  have p: "requests_post (service 500 (Some pass_body))
             \<lparr>session_key = ''alice'', session_password = ''secret'', JSESSIONID = ''abc''\<rparr>
             (cookies \<lparr>status_code = 200, json_body = None, cookies = anon_jar\<rparr>)
           = Inr \<lparr>status_code = 500, json_body = Some pass_body, cookies = auth_jar\<rparr>"
    by (simp add: service_def)
  have b: "json_body \<lparr>status_code = 500, json_body = Some pass_body, cookies = auth_jar\<rparr>
             = Some pass_body"
    by simp
  have c: "passes_challenge_check pass_body"
    by (simp add: passes_challenge_check_def pass_body_def)
  have u: "status_code \<lparr>status_code = 500, json_body = Some pass_body, cookies = auth_jar\<rparr> \<noteq> 200"
      "status_code \<lparr>status_code = 500, json_body = Some pass_body, cookies = auth_jar\<rparr> \<noteq> 401"
    by simp_all
  show ?thesis using authenticate_other_status [OF m g s p b c u] m c by simp
qed

subsection \<open>When the cookie file is written\<close>

text \<open>
  Claim C4 says that the cookie file of a user is created or overwritten only after the
  response of the authentication endpoint has been read as a success. The code does
  otherwise: \<open>_do_authentication_request\<close> begins with \<open>_set_session_cookies\<close> on the
  anonymous jar, and that writes the file before the POST is sent. At alice, who has no
  cookie file, with a service that answers the POST with status 401: \<open>authenticate\<close>
  raises \<open>UnauthorizedException\<close>, the only file write of the run comes before the
  POST, and afterwards her cookie file exists and holds the anonymous jar. That jar is
  valid for the cache, so the next \<open>authenticate\<close> for alice, with any password, returns
  normally and makes no request at all.
\<close>

theorem authenticate_failed_login_leaves_cache:
  "files no_cache_client ''cookies/alice.jr'' = None
 \<and> requests_post (service 401 (Some (JDict []))) alice_payload anon_jar = Inr unauthorized_response
 \<and> fst (authenticate (service 401 (Some (JDict []))) no_cache_client ''alice'' ''secret'')
      = Inl UnauthorizedException
 \<and> trace after_failed_login
      = [NetGet, FileWrite ''cookies/alice.jr'' anon_jar, NetPost alice_payload anon_jar]
 \<and> files after_failed_login ''cookies/alice.jr'' = Some anon_jar
 \<and> authenticate (service 401 (Some (JDict []))) after_failed_login ''alice'' ''wrong''
      = (Inr (), after_failed_login)"
proof -
  have run: "authenticate (service 401 (Some (JDict []))) no_cache_client ''alice'' ''secret''
      = (Inl UnauthorizedException,
         \<lparr>use_cookie_cache = True,
          session_cookies = anon_jar,
          session_headers = (map_of REQUEST_HEADERS)(''csrf-token'' \<mapsto> ''abc''),
          files = [''cookies/alice.jr'' \<mapsto> anon_jar],
          trace = [NetGet, FileWrite ''cookies/alice.jr'' anon_jar, NetPost alice_payload anon_jar]\<rparr>)"
    by (simp add: example_defs client_defs)
  have before: "files no_cache_client ''cookies/alice.jr'' = None"
    by (simp add: no_cache_client_def init_def)
  have post: "requests_post (service 401 (Some (JDict []))) alice_payload anon_jar
                = Inr unauthorized_response"
    by (simp add: service_def unauthorized_response_def)
  have st: "after_failed_login =
         \<lparr>use_cookie_cache = True,
          session_cookies = anon_jar,
          session_headers = (map_of REQUEST_HEADERS)(''csrf-token'' \<mapsto> ''abc''),
          files = [''cookies/alice.jr'' \<mapsto> anon_jar],
          trace = [NetGet, FileWrite ''cookies/alice.jr'' anon_jar, NetPost alice_payload anon_jar]\<rparr>"
    by (simp add: after_failed_login_def run)
  have again: "authenticate (service 401 (Some (JDict []))) after_failed_login ''alice'' ''wrong''
                 = (Inr (), after_failed_login)"
    by (simp add: st authenticate_def load_cookies_from_cache_def get_cookiejar_file_def
        service_def anon_jar_def mk_cookie_def truthy_str_def)
  show ?thesis
    using run before post again by (simp add: st)
qed

subsection \<open>The run that succeeds\<close>

text \<open>
  Claim C6. For the user alice with no cookie file: when the GET gives a jar whose one
  cookie is \<open>JSESSIONID\<close> with value \<open>abc\<close>, and the POST made with that jar answers with
  status 200, the body \<open>{"login_result": "PASS"}\<close> and a jar whose one cookie is
  \<open>JSESSIONID\<close> with value \<open>xyz\<close>, then \<open>authenticate\<close> returns normally, and afterwards
  alice's cookie file and the session hold the second jar, not the anonymous one. This
  holds for every expiry of the two cookies.
\<close>

theorem authenticate_end_to_end_alice:
  assumes "files st (get_cookiejar_file e ''alice'') = None"
    and "requests_get e = Inr r0"
    and "cookies r0 = [c1]"
    and "cookie_name c1 = ''JSESSIONID''"
    and "cookie_value c1 = Some ''abc''"
    and "requests_post e
           \<lparr>session_key = ''alice'', session_password = password, JSESSIONID = ''abc''\<rparr> [c1]
         = Inr res"
    and "status_code res = 200"
    and "json_body res = Some (JDict [(''login_result'', JStr ''PASS'')])"
    and "cookies res = [c2]"
    and "cookie_name c2 = ''JSESSIONID''"
    and "cookie_value c2 = Some ''xyz''"
  shows "fst (authenticate e st ''alice'' password) = Inr ()
     \<and> files (snd (authenticate e st ''alice'' password)) (get_cookiejar_file e ''alice'') = Some [c2]
     \<and> session_cookies (snd (authenticate e st ''alice'' password)) = [c2]
     \<and> session_headers (snd (authenticate e st ''alice'' password)) ''csrf-token'' = Some ''xyz''"
proof -
  have miss: "\<not> cache_hit e st ''alice''"
    using assms(1) by (simp add: cache_hit_def load_cookies_from_cache_def)
  have sid1: "find_no_duplicates ''JSESSIONID'' (cookies r0) = Inr ''abc''"
    using assms(3-5) by (simp add: find_no_duplicates_single)
  have sid2: "find_no_duplicates ''JSESSIONID'' [c2] = Inr ''xyz''"
    using assms(10,11) by (simp add: find_no_duplicates_single)
  have post: "requests_post e
                \<lparr>session_key = ''alice'', session_password = password, JSESSIONID = ''abc''\<rparr>
                (cookies r0) = Inr res"
    using assms(3,6) by simp
  have "authenticate e st ''alice'' password =
        set_session_cookies e (posted e st ''alice'' password (cookies r0) ''abc'')
          (cookies res) ''alice''"
    using miss assms(7,8) post
    by (simp add: authenticate_cases do_authentication_request_posted [OF assms(2) sid1])
  then show ?thesis
    using assms(9) by (simp add: set_session_cookies_Inr [OF sid2] strip_def)
qed

theorem authenticate_end_to_end_alice_witness:
  "files no_cache_client (get_cookiejar_file (service 200 (Some pass_body)) ''alice'') = None
 \<and> fst (authenticate (service 200 (Some pass_body)) no_cache_client ''alice'' ''secret'') = Inr ()
 \<and> files (snd (authenticate (service 200 (Some pass_body)) no_cache_client ''alice'' ''secret''))
     ''cookies/alice.jr'' = Some auth_jar
 \<and> auth_jar \<noteq> anon_jar"
proof -
  have h: "files no_cache_client (get_cookiejar_file (service 200 (Some pass_body)) ''alice'') = None"
    by (simp add: no_cache_client_def init_def)
  have g: "requests_get (service 200 (Some pass_body))
             = Inr \<lparr>status_code = 200, json_body = None, cookies = anon_jar\<rparr>"
    by (simp add: service_def)
  have j1: "cookies \<lparr>status_code = 200, json_body = None, cookies = anon_jar\<rparr>
              = [mk_cookie ''JSESSIONID'' (Some ''abc'') (Some 4600)]"
    by (simp add: anon_jar_def)
  have n1: "cookie_name (mk_cookie ''JSESSIONID'' (Some ''abc'') (Some 4600)) = ''JSESSIONID''"
    and v1: "cookie_value (mk_cookie ''JSESSIONID'' (Some ''abc'') (Some 4600)) = Some ''abc''"
    by (simp_all add: mk_cookie_def)
  have p: "requests_post (service 200 (Some pass_body))
             \<lparr>session_key = ''alice'', session_password = ''secret'', JSESSIONID = ''abc''\<rparr>
             [mk_cookie ''JSESSIONID'' (Some ''abc'') (Some 4600)]
           = Inr \<lparr>status_code = 200, json_body = Some pass_body, cookies = auth_jar\<rparr>"
    by (simp add: service_def)
  have u: "status_code \<lparr>status_code = 200, json_body = Some pass_body, cookies = auth_jar\<rparr> = 200"
    by simp
  have b: "json_body \<lparr>status_code = 200, json_body = Some pass_body, cookies = auth_jar\<rparr>
             = Some (JDict [(''login_result'', JStr ''PASS'')])"
    by (simp add: pass_body_def)
  have j2: "cookies \<lparr>status_code = 200, json_body = Some pass_body, cookies = auth_jar\<rparr>
              = [mk_cookie ''JSESSIONID'' (Some ''xyz'') (Some 87400)]"
    by (simp add: auth_jar_def)
  have n2: "cookie_name (mk_cookie ''JSESSIONID'' (Some ''xyz'') (Some 87400)) = ''JSESSIONID''"
    and v2: "cookie_value (mk_cookie ''JSESSIONID'' (Some ''xyz'') (Some 87400)) = Some ''xyz''"
    by (simp_all add: mk_cookie_def)
  have d: "auth_jar \<noteq> anon_jar"
    by (simp add: auth_jar_def anon_jar_def mk_cookie_def)
  show ?thesis
    using authenticate_end_to_end_alice [OF h g j1 n1 v1 p u b j2 n2 v2] h d
    by (simp add: auth_jar_def get_cookiejar_file_def service_def)
qed

end
